theory Spec2Isabelle
  imports Main
begin

section \<open>Values, errors and outcomes\<close>

text \<open>
  The JavaScript values that reach a truthiness test in \<^verbatim>\<open>lib/lock.js\<close>: the reply
  of the conditional write (\<^verbatim>\<open>'OK'\<close> or \<^verbatim>\<open>null\<close>), the reply of the
  \<^verbatim>\<open>delifequal\<close> script (\<^verbatim>\<open>1\<close> or \<^verbatim>\<open>0\<close>) and a client's
  \<^verbatim>\<open>connection_id\<close> (absent, a number or a string).
\<close>

datatype jsval = JUndefined | JNull | JBool bool | JNum int | JStr string

fun truthy :: "jsval \<Rightarrow> bool" where
  "truthy JUndefined = False"
| "truthy JNull = False"
| "truthy (JBool b) = b"
| "truthy (JNum n) = (n \<noteq> 0)"
| "truthy (JStr s) = (s \<noteq> [])"

text \<open>
  The two error classes the module imports from \<^verbatim>\<open>./errors\<close>, each carrying its
  message; \<open>StoreError\<close> is any error the store client rejects a call with, and
  \<open>TypeError\<close> is the engine's error for a property read on \<^verbatim>\<open>undefined\<close>.
\<close>

datatype error =
    LockAcquisitionError string
  | LockReleaseError string
  | StoreError string
  | TypeError string

text \<open>
  How a call of the public API ends: a promise that is fulfilled, a promise that is
  rejected, or an exception thrown before any promise is returned.
\<close>

datatype outcome = Fulfilled | Rejected error | Thrown error

text \<open>What a promisified store call settles with.\<close>

datatype reply = Resolves jsval | Rejects error

section \<open>Objects\<close>

text \<open>
  An async method of a client is either the result of \<^verbatim>\<open>Promise.promisify(client[method])\<close>
  or something the client already had.
\<close>

datatype asyncfn = Promisified string | Preexisting

text \<open>
  A client object: its \<^verbatim>\<open>connection_id\<close> and the async methods it carries, by
  property name (\<^verbatim>\<open>client[asyncMethod]\<close>).
\<close>

record client_obj =
  connection_id :: jsval
  props :: "string \<rightharpoonup> asyncfn"

text \<open>
  A \<^verbatim>\<open>Shavaluator\<close> instance: the client it was built on (a reference), whether
  \<^verbatim>\<open>promisifyAll\<close> went over it, and the names of the scripts added to it.
\<close>

record shavaluator_obj =
  sh_client :: nat
  sh_promisified :: bool
  sh_scripts :: "string list"

text \<open>
  A Lock. \<open>client\<close> is a reference into the heap of client objects,
  \<open>key\<close> is \<open>None\<close> for \<^verbatim>\<open>null\<close>; \<open>id_lock\<close> is the field \<^verbatim>\<open>id\<close>.
\<close>

record lock =
  id_lock :: string
  locked :: bool
  key :: "string option"
  client :: nat
  shavaluator :: shavaluator_obj
  timeout :: int
  retries :: int
  delay :: int

text \<open>
  The calls that leave the module, in the order they are made.
\<close>

datatype effect =
    Promisify nat string
  | NewShavaluator nat
  | PromisifyAll nat
  | AddScript nat string
  | SetAsync nat string string int
  | Delay int
  | ExecAsync nat string "string option" string

text \<open>
  The process: the three static registries of \<^verbatim>\<open>Lock\<close>, the heap of client objects,
  the state of everything outside the module (the store, the clock, the identifier
  generator) and the log of calls made so far. \<^verbatim>\<open>Lock._acquiredLocks\<close> maps a lock's id
  to the lock object itself; the model keeps its set of keys.
  The registries are keyed by the value of \<^verbatim>\<open>connection_id\<close>. They are maps: the
  conversion of a property key to a string (by which the number 5 and the string
  \<^verbatim>\<open>'5'\<close> name one property) and the properties that an empty object inherits are left out,
  so a \<^verbatim>\<open>connection_id\<close> is taken not to collide with another in either way.
\<close>

record 'w process =
  promisifiedClients :: "jsval \<rightharpoonup> nat"
  shavaluators :: "jsval \<rightharpoonup> shavaluator_obj"
  acquiredLocks :: "string set"
  heap :: "nat \<rightharpoonup> client_obj"
  world :: 'w
  trace :: "effect list"

text \<open>
  What the module calls but does not define: \<^verbatim>\<open>uuid.v1()\<close>,
  \<^verbatim>\<open>client.setAsync(key, value, 'PX', ttl, 'NX')\<close> on a client reference,
  \<^verbatim>\<open>shaval.execAsync(name, [key], [arg])\<close> on a Shavaluator, and the passing of time
  in \<^verbatim>\<open>Promise.delay(ms)\<close>. Each is a function on the outside world.
\<close>

record 'w env =
  uuid_v1 :: "'w \<Rightarrow> string \<times> 'w"
  client_setAsync :: "nat \<Rightarrow> string \<Rightarrow> string \<Rightarrow> int \<Rightarrow> 'w \<Rightarrow> reply \<times> 'w"
  shaval_execAsync :: "shavaluator_obj \<Rightarrow> string \<Rightarrow> string option \<Rightarrow> string \<Rightarrow> 'w \<Rightarrow> reply \<times> 'w"
  promise_delay :: "int \<Rightarrow> 'w \<Rightarrow> 'w"

section \<open>Construction\<close>

text \<open>
  \<^verbatim>\<open>Lock.prototype._setupClient\<close>. The argument is a reference to the client object; a
  reference to nothing is \<^verbatim>\<open>undefined\<close>, and reading its \<^verbatim>\<open>connection_id\<close> throws.
  The result is the reference stored in \<^verbatim>\<open>this._client\<close>.
\<close>

definition promisify_method :: "nat \<Rightarrow> 'w process \<Rightarrow> string \<Rightarrow> 'w process" where
  "promisify_method c p method =
     (let asyncMethod = method @ ''Async'' in
      case heap p c of
        None \<Rightarrow> p
      | Some obj \<Rightarrow>
          (case props obj asyncMethod of
             Some f \<Rightarrow> p
           | None \<Rightarrow>
               p\<lparr>heap := (heap p)(c \<mapsto> obj\<lparr>props := (props obj)(asyncMethod \<mapsto> Promisified method)\<rparr>),
                 trace := trace p @ [Promisify c method]\<rparr>))"

definition setupClient :: "'w env \<Rightarrow> nat \<Rightarrow> 'w process \<Rightarrow> (error + nat) \<times> 'w process" where
  "setupClient env c p =
     (case heap p c of
        None \<Rightarrow> (Inl (TypeError ''Cannot read property connection_id of undefined''), p)
      | Some obj \<Rightarrow>
          (let p1 = (if \<not> truthy (connection_id obj) then
                       (case uuid_v1 env (world p) of
                          (u, w1) \<Rightarrow> p\<lparr>heap := (heap p)(c \<mapsto> obj\<lparr>connection_id := JStr u\<rparr>), world := w1\<rparr>)
                     else p);
               ident = (case heap p1 c of Some obj1 \<Rightarrow> connection_id obj1 | None \<Rightarrow> JUndefined)
           in case promisifiedClients p1 ident of
                Some c' \<Rightarrow> (Inr c', p1)
              | None \<Rightarrow>
                  (let p2 = foldl (promisify_method c) p1 [''get'', ''set'', ''watch'']
                   in (Inr c, p2\<lparr>promisifiedClients := (promisifiedClients p2)(ident \<mapsto> c)\<rparr>))))"

text \<open>
  \<^verbatim>\<open>Lock.prototype._setupLuaScripts\<close>. The result is the instance stored in
  \<^verbatim>\<open>this._shavaluator\<close>; \<open>new_shavaluator c\<close> is the instance after the three
  statements that build it: created on the client, promisified, and given the script.
\<close>

definition new_shavaluator :: "nat \<Rightarrow> shavaluator_obj" where
  "new_shavaluator c = \<lparr>sh_client = c, sh_promisified = True, sh_scripts = [''delifequal'']\<rparr>"

definition setupLuaScripts :: "nat \<Rightarrow> 'w process \<Rightarrow> (error + shavaluator_obj) \<times> 'w process" where
  "setupLuaScripts c p =
     (case heap p c of
        None \<Rightarrow> (Inl (TypeError ''Cannot read property connection_id of undefined''), p)
      | Some obj \<Rightarrow>
          (let ident = connection_id obj in
           case shavaluators p ident of
             Some sh \<Rightarrow> (Inr sh, p)
           | None \<Rightarrow>
               (let sh = new_shavaluator c
                in (Inr sh,
                    p\<lparr>shavaluators := (shavaluators p)(ident \<mapsto> sh),
                      trace := trace p @ [NewShavaluator c, PromisifyAll c, AddScript c ''delifequal'']\<rparr>))))"

text \<open>
  \<^verbatim>\<open>Lock._defaults\<close> and the options object; an option that is not a property of the
  object is \<open>None\<close>, and no options object at all is \<open>None\<close>.
\<close>

record options =
  opt_timeout :: "int option"
  opt_retries :: "int option"
  opt_delay :: "int option"

record defaults_obj =
  timeout_default :: int
  retries_default :: int
  delay_default :: int

definition defaults :: defaults_obj where
  "defaults = \<lparr>timeout_default = 10000, retries_default = 0, delay_default = 100\<rparr>"

definition option_value :: "int \<Rightarrow> (options \<Rightarrow> int option) \<Rightarrow> options option \<Rightarrow> int" where
  "option_value dflt field opts =
     (case opts of
        None \<Rightarrow> dflt
      | Some os \<Rightarrow> (case field os of Some v \<Rightarrow> v | None \<Rightarrow> dflt))"

text \<open>The constructor \<^verbatim>\<open>Lock(client, options)\<close>.\<close>

definition new_Lock ::
  "'w env \<Rightarrow> nat \<Rightarrow> options option \<Rightarrow> 'w process \<Rightarrow> (error + lock) \<times> 'w process"
where
  "new_Lock env c opts p =
     (case uuid_v1 env (world p) of
        (u, w0) \<Rightarrow>
          (case setupClient env c (p\<lparr>world := w0\<rparr>) of
             (Inl e, p1) \<Rightarrow> (Inl e, p1)
           | (Inr cl, p1) \<Rightarrow>
               (case setupLuaScripts c p1 of
                  (Inl e, p2) \<Rightarrow> (Inl e, p2)
                | (Inr sh, p2) \<Rightarrow>
                    (Inr \<lparr>id_lock = u, locked = False, key = None, client = cl, shavaluator = sh,
                          timeout = option_value (timeout_default defaults) opt_timeout opts,
                          retries = option_value (retries_default defaults) opt_retries opts,
                          delay = option_value (delay_default defaults) opt_delay opts\<rparr>, p2))))"





section \<open>Acquisition and release\<close>

definition record_call :: "effect \<Rightarrow> 'w \<Rightarrow> 'w process \<Rightarrow> 'w process" where
  "record_call e w p = p\<lparr>world := w, trace := trace p @ [e]\<rparr>"

text \<open>
  \<^verbatim>\<open>Lock.prototype._attemptLock\<close>. \<open>n\<close> is the parameter \<^verbatim>\<open>retries\<close>, tested with
  \<^verbatim>\<open>!retries\<close>. The recursion may go on forever, so the result is an option.
\<close>

partial_function (option) attemptLock ::
  "'w env \<Rightarrow> lock \<Rightarrow> string \<Rightarrow> int \<Rightarrow> 'w process \<Rightarrow> (outcome \<times> 'w process) option"
where
  "attemptLock env this k n p =
     (case client_setAsync env (client this) k (id_lock this) (timeout this) (world p) of
        (r, w1) \<Rightarrow>
          (let p1 = record_call (SetAsync (client this) k (id_lock this) (timeout this)) w1 p in
           case r of
             Rejects e \<Rightarrow> Some (Rejected e, p1)
           | Resolves res \<Rightarrow>
               if \<not> truthy res \<and> \<not> (n \<noteq> 0) then
                 Some (Rejected (LockAcquisitionError (''Could not acquire lock on '' @ k)), p1)
               else if truthy res then Some (Fulfilled, p1)
               else attemptLock env this k (n - 1)
                      (record_call (Delay (delay this)) (promise_delay env (delay this) (world p1)) p1)))"

declare attemptLock.simps [code]

text \<open>\<^verbatim>\<open>Lock.prototype.acquire\<close>, called without a callback.\<close>

definition acquire ::
  "'w env \<Rightarrow> lock \<Rightarrow> string \<Rightarrow> 'w process \<Rightarrow> (outcome \<times> lock \<times> 'w process) option"
where
  "acquire env this k p =
     (if locked this then
        Some (Rejected (LockAcquisitionError ''Lock already held''), this, p)
      else
        case attemptLock env this k (retries this) p of
          None \<Rightarrow> None
        | Some (Fulfilled, p') \<Rightarrow>
            Some (Fulfilled, this\<lparr>locked := True, key := Some k\<rparr>,
                  p'\<lparr>acquiredLocks := insert (id_lock this) (acquiredLocks p')\<rparr>)
        | Some (r, p') \<Rightarrow> Some (r, this, p'))"

text \<open>String concatenation with a key that may be \<^verbatim>\<open>null\<close>.\<close>

fun key_text :: "string option \<Rightarrow> string" where
  "key_text None = ''null''"
| "key_text (Some k) = k"

text \<open>\<^verbatim>\<open>Lock.prototype.release\<close>, called without a callback.\<close>

definition release :: "'w env \<Rightarrow> lock \<Rightarrow> 'w process \<Rightarrow> outcome \<times> lock \<times> 'w process" where
  "release env this p =
     (if \<not> locked this then
        (Thrown (LockReleaseError ''Lock has not been acquired''), this, p)
      else
        case shaval_execAsync env (shavaluator this) ''delifequal'' (key this) (id_lock this) (world p) of
          (r, w1) \<Rightarrow>
            (let p1 = record_call (ExecAsync (sh_client (shavaluator this)) ''delifequal'' (key this) (id_lock this)) w1 p in
             case r of
               Rejects e \<Rightarrow> (Rejected e, this, p1)
             | Resolves res \<Rightarrow>
                 (let this' = this\<lparr>locked := False, key := None\<rparr> in
                  if \<not> truthy res then
                    (Rejected (LockReleaseError (''Lock on '' @ key_text (key this) @ '' has expired'')), this', p1)
                  else (Fulfilled, this', p1))))"

section \<open>The store\<close>

text \<open>
  Modelled from the spec: the key-value store behind the client, which is not part of the
  repository. The store holds, for a key, a value and the time at which the key expires,
  and a key whose time has come does not exist any more. The identifier generator never
  repeats an identifier.
\<close>

record redis =
  clock :: int
  db :: "string \<rightharpoonup> string \<times> int"
  uuids :: nat

definition live :: "redis \<Rightarrow> string \<Rightarrow> string option" where
  "live w k = (case db w k of
                 None \<Rightarrow> None
               | Some (v, expiry) \<Rightarrow> if clock w < expiry then Some v else None)"

definition uuid_text :: "nat \<Rightarrow> string" where
  "uuid_text n = ''uuid-'' @ replicate n (CHR ''1'')"

definition redis_uuid :: "redis \<Rightarrow> string \<times> redis" where
  "redis_uuid w = (uuid_text (uuids w), w\<lparr>uuids := Suc (uuids w)\<rparr>)"

text \<open>
  Modelled from the spec: the conditional write of the store, \<^verbatim>\<open>SET key value PX ttl NX\<close>.
  It sets the key to the value, with the expiry, only if the key does not currently exist,
  and replies \<^verbatim>\<open>OK\<close>; otherwise it replies \<^verbatim>\<open>null\<close> and changes nothing. The store
  refuses an expiry that is not positive with an error.
\<close>

definition redis_set_px_nx :: "nat \<Rightarrow> string \<Rightarrow> string \<Rightarrow> int \<Rightarrow> redis \<Rightarrow> reply \<times> redis" where
  "redis_set_px_nx c k v ttl w =
     (if ttl \<le> 0 then (Rejects (StoreError ''ERR invalid expire time in set''), w)
      else case live w k of
             None \<Rightarrow> (Resolves (JStr ''OK''), w\<lparr>db := (db w)(k \<mapsto> (v, clock w + ttl))\<rparr>)
           | Some held \<Rightarrow> (Resolves JNull, w))"

text \<open>
  Modelled from the spec: the script \<^verbatim>\<open>delifequal\<close> of \<^verbatim>\<open>./scripts\<close>, which is not
  among the sources. If the value at the key equals the token, it deletes the key and
  reports 1; otherwise it reports 0 and deletes nothing. A Shavaluator runs it by name if
  the script was added to it.
\<close>

definition delifequal :: "string \<Rightarrow> string \<Rightarrow> redis \<Rightarrow> reply \<times> redis" where
  "delifequal k token w =
     (if live w k = Some token then (Resolves (JNum 1), w\<lparr>db := (db w)(k := None)\<rparr>)
      else (Resolves (JNum 0), w))"

definition redis_exec ::
  "shavaluator_obj \<Rightarrow> string \<Rightarrow> string option \<Rightarrow> string \<Rightarrow> redis \<Rightarrow> reply \<times> redis"
where
  "redis_exec sh name k token w =
     (if name \<in> set (sh_scripts sh) \<and> name = ''delifequal'' then
        delifequal (key_text k) token w
      else (Rejects (StoreError ''script not found''), w))"

text \<open>Time passes in \<^verbatim>\<open>Promise.delay\<close>; a negative delay does not wait.\<close>

definition redis_delay :: "int \<Rightarrow> redis \<Rightarrow> redis" where
  "redis_delay ms w = w\<lparr>clock := clock w + max 0 ms\<rparr>"

definition redis_env :: "redis env" where
  "redis_env = \<lparr>uuid_v1 = redis_uuid, client_setAsync = redis_set_px_nx,
                shaval_execAsync = redis_exec, promise_delay = redis_delay\<rparr>"


definition down_env :: "redis env" where
  "down_env = redis_env\<lparr>client_setAsync := (\<lambda>c k v ttl w. (Rejects (StoreError ''ECONNREFUSED''), w))\<rparr>"

text \<open>A store that refuses the write at first and whose connection is lost after 100 ms.\<close>

definition flaky_env :: "redis env" where
  "flaky_env = redis_env\<lparr>client_setAsync :=
     (\<lambda>c k v ttl w. if clock w < 100 then (Resolves JNull, w)
                     else (Rejects (StoreError ''ECONNRESET''), w))\<rparr>"

text \<open>A fresh process with one client object, at reference 0, that has no \<^verbatim>\<open>connection_id\<close>.\<close>

definition fresh_client :: client_obj where
  "fresh_client = \<lparr>connection_id = JUndefined, props = Map.empty\<rparr>"

definition empty_redis :: redis where
  "empty_redis = \<lparr>clock = 0, db = Map.empty, uuids = 0\<rparr>"

definition fresh_process :: "redis process" where
  "fresh_process = \<lparr>promisifiedClients = Map.empty, shavaluators = Map.empty, acquiredLocks = {},
                     heap = [0 \<mapsto> fresh_client], world = empty_redis, trace = []\<rparr>"

text \<open>
  The first Lock built on that client with no options, as the constructor returns it, and
  the same Lock holding \<^verbatim>\<open>res1\<close>; a Lock with two retries.
\<close>

definition idle_lock :: lock where
  "idle_lock = \<lparr>id_lock = ''uuid-'', locked = False, key = None, client = 0,
                 shavaluator = \<lparr>sh_client = 0, sh_promisified = True, sh_scripts = [''delifequal'']\<rparr>,
                 timeout = 10000, retries = 0, delay = 100\<rparr>"

definition held_lock :: lock where
  "held_lock = idle_lock\<lparr>locked := True, key := Some ''res1''\<rparr>"

definition retry_lock :: lock where
  "retry_lock = idle_lock\<lparr>retries := 2\<rparr>"

text \<open>The process in which \<^verbatim>\<open>held_lock\<close> has just acquired \<^verbatim>\<open>res1\<close>.\<close>

definition holding_process :: "redis process" where
  "holding_process =
     fresh_process\<lparr>acquiredLocks := {''uuid-''},
                   world := \<lparr>clock = 0, db = [''res1'' \<mapsto> (''uuid-'', 10000)], uuids = 2\<rparr>,
                   trace := [SetAsync 0 ''res1'' ''uuid-'' 10000]\<rparr>"

text \<open>A store in which the lease of \<^verbatim>\<open>held_lock\<close>, taken for 50 ms, has run out.\<close>

definition expired_process :: "redis process" where
  "expired_process =
     fresh_process\<lparr>acquiredLocks := {''uuid-''},
                   world := \<lparr>clock = 100, db = [''res1'' \<mapsto> (''uuid-'', 50)], uuids = 2\<rparr>\<rparr>"

section \<open>Several Locks on one store\<close>

text \<open>
  Locks that share the store take turns: an operation is an \<^verbatim>\<open>acquire\<close> or a
  \<^verbatim>\<open>release\<close> of one of the Locks, run to its end (an \<^verbatim>\<open>acquire\<close> with all its
  attempts and delays), or a time of waiting. A number that is no Lock's index does
  nothing. A run is \<open>None\<close> if one of its operations does not return.
\<close>

datatype op = Acquire nat string | Release nat | Wait int

fun step :: "op \<Rightarrow> lock list \<times> redis process \<Rightarrow> (lock list \<times> redis process) option" where
  "step (Acquire i k) (ls, p) =
     (if i < length ls then
        (case acquire redis_env (ls ! i) k p of
           None \<Rightarrow> None
         | Some (r, l, p') \<Rightarrow> Some (ls[i := l], p'))
      else Some (ls, p))"
| "step (Release i) (ls, p) =
     (if i < length ls then
        (case release redis_env (ls ! i) p of (r, l, p') \<Rightarrow> Some (ls[i := l], p'))
      else Some (ls, p))"
| "step (Wait ms) (ls, p) = Some (ls, p\<lparr>world := redis_delay ms (world p)\<rparr>)"

fun run :: "op list \<Rightarrow> lock list \<times> redis process \<Rightarrow> (lock list \<times> redis process) option" where
  "run [] s = Some s"
| "run (x # xs) s = (case step x s of None \<Rightarrow> None | Some s' \<Rightarrow> run xs s')"







text \<open>The number of conditional writes in a log of calls.\<close>

fun is_write :: "effect \<Rightarrow> bool" where
  "is_write (SetAsync c k v ttl) = True"
| "is_write e = False"

definition writes :: "effect list \<Rightarrow> nat" where
  "writes tr = length (filter is_write tr)"

section \<open>The fixtures are what the constructor builds\<close>

lemma new_Lock_idle: "fst (new_Lock redis_env 0 None fresh_process) = Inr idle_lock"
  by code_simp

section \<open>Preconditions of acquire and release\<close>

text \<open>
  C4, as amended. On a Lock that is already locked, \<^verbatim>\<open>acquire\<close> fails at once for any
  key: the promise it returns is rejected with a \<^verbatim>\<open>LockAcquisitionError\<close> whose message
  is \<^verbatim>\<open>Lock already held\<close>; nothing is thrown, no call leaves the module (the log and
  the store are as before) and the Lock is unchanged.
\<close>

theorem acquire_when_locked:
  "locked this \<Longrightarrow>
     acquire env this k p = Some (Rejected (LockAcquisitionError ''Lock already held''), this, p)"
  by (simp add: acquire_def)

theorem acquire_when_locked_witness:
  "locked held_lock \<and>
   acquire redis_env held_lock ''res2'' holding_process =
     Some (Rejected (LockAcquisitionError ''Lock already held''), held_lock, holding_process)"
  using acquire_when_locked [of held_lock redis_env "''res2''" holding_process]
  by (simp add: held_lock_def idle_lock_def)

text \<open>
  C4, as stated, fails: the error of a second \<^verbatim>\<open>acquire\<close> on the Lock that holds
  \<^verbatim>\<open>res1\<close> is of the kind \<^verbatim>\<open>LockAcquisitionError\<close>, the one a lost contention
  raises too, and it arrives as a rejected promise, not as an exception thrown by the call.
\<close>

theorem acquire_when_locked_counterexample:
  "locked held_lock \<and>
   acquire redis_env held_lock ''res1'' holding_process =
     Some (Rejected (LockAcquisitionError ''Lock already held''), held_lock, holding_process)"
  by (simp add: acquire_def held_lock_def idle_lock_def)

text \<open>
  C7. On a Lock that is not locked, \<^verbatim>\<open>release\<close> throws a \<^verbatim>\<open>LockReleaseError\<close>
  before any call is made: the script is not run, and the store, the log, the registries
  and the Lock are as before.
\<close>

theorem release_when_idle:
  "\<not> locked this \<Longrightarrow>
     release env this p = (Thrown (LockReleaseError ''Lock has not been acquired''), this, p)"
  by (simp add: release_def)

theorem release_when_idle_witness:
  "\<not> locked idle_lock \<and>
   release redis_env idle_lock fresh_process =
     (Thrown (LockReleaseError ''Lock has not been acquired''), idle_lock, fresh_process)"
  using release_when_idle [of idle_lock redis_env fresh_process]
  by (simp add: idle_lock_def)

section \<open>Release\<close>

text \<open>
  C5. When a locked Lock is released and the script reports 0, the promise is rejected with
  a \<^verbatim>\<open>LockReleaseError\<close> whose message names the key the Lock held, and the Lock is
  left with \<^verbatim>\<open>locked\<close> false and \<^verbatim>\<open>key\<close> null; the one call made is the script.
\<close>

theorem release_expired:
  assumes "locked this"
    and "shaval_execAsync env (shavaluator this) ''delifequal'' (key this) (id_lock this) (world p)
           = (Resolves (JNum 0), w1)"
  shows "release env this p =
           (Rejected (LockReleaseError (''Lock on '' @ key_text (key this) @ '' has expired'')),
            this\<lparr>locked := False, key := None\<rparr>,
            record_call (ExecAsync (sh_client (shavaluator this)) ''delifequal'' (key this) (id_lock this)) w1 p)"
  using assms by (simp add: release_def)

theorem release_expired_witness:
  "locked held_lock \<and>
   shaval_execAsync redis_env (shavaluator held_lock) ''delifequal'' (key held_lock)
       (id_lock held_lock) (world expired_process) = (Resolves (JNum 0), world expired_process) \<and>
   release redis_env held_lock expired_process =
     (Rejected (LockReleaseError ''Lock on res1 has expired''), idle_lock,
      expired_process\<lparr>trace := [ExecAsync 0 ''delifequal'' (Some ''res1'') ''uuid-'']\<rparr>)"
proof -
  have h1: "locked held_lock" by (simp add: held_lock_def)
  have h2: "shaval_execAsync redis_env (shavaluator held_lock) ''delifequal'' (key held_lock)
       (id_lock held_lock) (world expired_process) = (Resolves (JNum 0), world expired_process)"
    by (simp add: redis_env_def redis_exec_def delifequal_def live_def held_lock_def idle_lock_def
          expired_process_def fresh_process_def)
  show ?thesis
    using h1 h2 release_expired [OF h1 h2]
    by (simp add: held_lock_def idle_lock_def record_call_def expired_process_def fresh_process_def)
qed

text \<open>No path of \<^verbatim>\<open>release\<close> touches \<^verbatim>\<open>Lock._acquiredLocks\<close>.\<close>

lemma release_acquiredLocks: "acquiredLocks (snd (snd (release env this p))) = acquiredLocks p"
  by (simp add: release_def record_call_def Let_def split: prod.splits reply.splits)

text \<open>
  C3. A Lock acquires \<^verbatim>\<open>res1\<close> on an empty store and releases it. The release succeeds,
  the script has deleted the key, the Lock is idle with its key cleared, and the Lock's id
  is still registered in \<^verbatim>\<open>Lock._acquiredLocks\<close>: the deregistration the claim asks for
  does not happen.
\<close>

theorem release_leaves_registration:
  "(case acquire redis_env idle_lock ''res1'' fresh_process of
      None \<Rightarrow> False
    | Some (r1, l1, p1) \<Rightarrow>
        (case release redis_env l1 p1 of
           (r2, l2, p2) \<Rightarrow>
             r1 = Fulfilled \<and> locked l1 \<and> live (world p1) ''res1'' = Some (id_lock l1) \<and>
             r2 = Fulfilled \<and> \<not> locked l2 \<and> key l2 = None \<and> live (world p2) ''res1'' = None \<and>
             id_lock l2 \<in> acquiredLocks p2))"
  by code_simp

section \<open>The retry loop\<close>

text \<open>Counting the conditional writes of a log.\<close>

lemma writes_append [simp]: "writes (xs @ ys) = writes xs + writes ys"
  by (simp add: writes_def)






text \<open>The loop changes nothing of the process but the outside world and the log.\<close>

lemma attemptLock_frame_aux:
  assumes run: "attemptLock env this k n p = Some y"
  shows "promisifiedClients (snd y) = promisifiedClients p \<and> shavaluators (snd y) = shavaluators p \<and>
     acquiredLocks (snd y) = acquiredLocks p \<and> heap (snd y) = heap p"
proof (rule attemptLock.raw_induct[where P = "\<lambda>env this k n p y.
     promisifiedClients (snd y) = promisifiedClients p \<and> shavaluators (snd y) = shavaluators p \<and>
     acquiredLocks (snd y) = acquiredLocks p \<and> heap (snd y) = heap p", OF _ run])
  fix f :: "'a env \<Rightarrow> lock \<Rightarrow> string \<Rightarrow> int \<Rightarrow> 'a process \<Rightarrow> (outcome \<times> 'a process) option"
  fix env this k n p y
  assume IH: "\<And>env this k n p y. f env this k n p = Some y \<Longrightarrow>
     promisifiedClients (snd y) = promisifiedClients p \<and> shavaluators (snd y) = shavaluators p \<and>
     acquiredLocks (snd y) = acquiredLocks p \<and> heap (snd y) = heap p"
  assume body: "(case client_setAsync env (client this) k (id_lock this) (timeout this) (world p) of
        (r, w1) \<Rightarrow>
          (let p1 = record_call (SetAsync (client this) k (id_lock this) (timeout this)) w1 p in
           case r of
             Rejects e \<Rightarrow> Some (Rejected e, p1)
           | Resolves res \<Rightarrow>
               if \<not> truthy res \<and> \<not> (n \<noteq> 0) then
                 Some (Rejected (LockAcquisitionError (''Could not acquire lock on '' @ k)), p1)
               else if truthy res then Some (Fulfilled, p1)
               else f env this k (n - 1)
                      (record_call (Delay (delay this)) (promise_delay env (delay this) (world p1)) p1))) = Some y"
  obtain r w1 where sw: "client_setAsync env (client this) k (id_lock this) (timeout this) (world p) = (r, w1)"
    by (cases "client_setAsync env (client this) k (id_lock this) (timeout this) (world p)")
  let ?p1 = "record_call (SetAsync (client this) k (id_lock this) (timeout this)) w1 p"
  let ?p2 = "record_call (Delay (delay this)) (promise_delay env (delay this) (world ?p1)) ?p1"
  from body sw consider
      "snd y = ?p1"
    | "f env this k (n - 1) ?p2 = Some y"
    by (auto simp: Let_def split: reply.splits if_splits)
  then show "promisifiedClients (snd y) = promisifiedClients p \<and> shavaluators (snd y) = shavaluators p \<and>
     acquiredLocks (snd y) = acquiredLocks p \<and> heap (snd y) = heap p"
  proof cases
    case 1
    then show ?thesis by (simp add: record_call_def)
  next
    case 2
    from IH[OF 2] show ?thesis by (simp add: record_call_def)
  qed
qed

lemma acquire_failure_frame:
  assumes "\<not> locked this" and "attemptLock env this k (retries this) q = Some (r, q')"
    and "r \<noteq> Fulfilled"
  shows "acquire env this k q = Some (r, this, q') \<and> acquiredLocks q' = acquiredLocks q"
  using assms attemptLock_frame_aux[OF assms(2)]
  by (cases r) (simp_all add: acquire_def)


text \<open>
  A store error that the loop ends with is the reply to the last write the loop made.
\<close>

lemma attemptLock_rejected_last:
  assumes run: "attemptLock env this k n p = Some y"
  shows "\<forall>m. fst y = Rejected (StoreError m) \<longrightarrow>
           (\<exists>q w. snd y = record_call (SetAsync (client this) k (id_lock this) (timeout this)) w q \<and>
                  client_setAsync env (client this) k (id_lock this) (timeout this) (world q)
                    = (Rejects (StoreError m), w))"
proof (rule attemptLock.raw_induct[where P = "\<lambda>env this k n p y.
     \<forall>m. fst y = Rejected (StoreError m) \<longrightarrow>
           (\<exists>q w. snd y = record_call (SetAsync (client this) k (id_lock this) (timeout this)) w q \<and>
                  client_setAsync env (client this) k (id_lock this) (timeout this) (world q)
                    = (Rejects (StoreError m), w))", OF _ run])
  fix f :: "'a env \<Rightarrow> lock \<Rightarrow> string \<Rightarrow> int \<Rightarrow> 'a process \<Rightarrow> (outcome \<times> 'a process) option"
  fix env this k n p y
  assume IH: "\<And>env this k n p y. f env this k n p = Some y \<Longrightarrow>
     \<forall>m. fst y = Rejected (StoreError m) \<longrightarrow>
           (\<exists>q w. snd y = record_call (SetAsync (client this) k (id_lock this) (timeout this)) w q \<and>
                  client_setAsync env (client this) k (id_lock this) (timeout this) (world q)
                    = (Rejects (StoreError m), w))"
  assume body: "(case client_setAsync env (client this) k (id_lock this) (timeout this) (world p) of
        (r, w1) \<Rightarrow>
          (let p1 = record_call (SetAsync (client this) k (id_lock this) (timeout this)) w1 p in
           case r of
             Rejects e \<Rightarrow> Some (Rejected e, p1)
           | Resolves res \<Rightarrow>
               if \<not> truthy res \<and> \<not> (n \<noteq> 0) then
                 Some (Rejected (LockAcquisitionError (''Could not acquire lock on '' @ k)), p1)
               else if truthy res then Some (Fulfilled, p1)
               else f env this k (n - 1)
                      (record_call (Delay (delay this)) (promise_delay env (delay this) (world p1)) p1))) = Some y"
  obtain r w1 where sw: "client_setAsync env (client this) k (id_lock this) (timeout this) (world p) = (r, w1)"
    by (cases "client_setAsync env (client this) k (id_lock this) (timeout this) (world p)")
  let ?p1 = "record_call (SetAsync (client this) k (id_lock this) (timeout this)) w1 p"
  let ?p2 = "record_call (Delay (delay this)) (promise_delay env (delay this) (world ?p1)) ?p1"
  show "\<forall>m. fst y = Rejected (StoreError m) \<longrightarrow>
           (\<exists>q w. snd y = record_call (SetAsync (client this) k (id_lock this) (timeout this)) w q \<and>
                  client_setAsync env (client this) k (id_lock this) (timeout this) (world q)
                    = (Rejects (StoreError m), w))"
  proof (cases r)
    case (Rejects e)
    with body sw have y: "y = (Rejected e, ?p1)" by (simp add: Let_def)
    show ?thesis
    proof (intro allI impI)
      fix m assume "fst y = Rejected (StoreError m)"
      with y have "e = StoreError m" by simp
      with sw Rejects y
      have "snd y = ?p1 \<and> client_setAsync env (client this) k (id_lock this) (timeout this) (world p)
                    = (Rejects (StoreError m), w1)" by simp
      then show "\<exists>q w. snd y = record_call (SetAsync (client this) k (id_lock this) (timeout this)) w q \<and>
                  client_setAsync env (client this) k (id_lock this) (timeout this) (world q)
                    = (Rejects (StoreError m), w)" by blast
    qed
  next
    case (Resolves res)
    show ?thesis
    proof (cases "truthy res")
      case True
      with body sw Resolves have "y = (Fulfilled, ?p1)" by (simp add: Let_def)
      then show ?thesis by simp
    next
      case False
      show ?thesis
      proof (cases "n = 0")
        case True
        with False body sw Resolves
        have "y = (Rejected (LockAcquisitionError (''Could not acquire lock on '' @ k)), ?p1)" by (simp add: Let_def)
        then show ?thesis by simp
      next
        case nz: False
        with False body sw Resolves have "f env this k (n - 1) ?p2 = Some y" by (simp add: Let_def)
        from IH[OF this] show ?thesis .
      qed
    qed
  qed
qed



text \<open>
  C6. If the store rejects a conditional write with an error, the attempt ends there with
  that very error, whatever the number of retries left: no delay and no further write
  follows, and \<^verbatim>\<open>acquire\<close> rejects with the same error and leaves the Lock and
  \<^verbatim>\<open>Lock._acquiredLocks\<close> as they were. Conversely, a store error that the loop ends
  with is the reply to the last write made; and whenever the loop fails, \<^verbatim>\<open>acquire\<close>
  passes the failure on without touching the Lock or its registration.
\<close>

theorem transport_error_aborts:
  "(\<forall>e w1 n. client_setAsync env (client this) k (id_lock this) (timeout this) (world p) = (Rejects e, w1) \<longrightarrow>
      attemptLock env this k n p =
        Some (Rejected e, record_call (SetAsync (client this) k (id_lock this) (timeout this)) w1 p) \<and>
      (\<not> locked this \<longrightarrow>
         acquire env this k p =
           Some (Rejected e, this, record_call (SetAsync (client this) k (id_lock this) (timeout this)) w1 p)) \<and>
      trace (record_call (SetAsync (client this) k (id_lock this) (timeout this)) w1 p) =
        trace p @ [SetAsync (client this) k (id_lock this) (timeout this)] \<and>
      acquiredLocks (record_call (SetAsync (client this) k (id_lock this) (timeout this)) w1 p) =
        acquiredLocks p) \<and>
   (\<forall>n m p'. attemptLock env this k n p = Some (Rejected (StoreError m), p') \<longrightarrow>
      (\<exists>q w. p' = record_call (SetAsync (client this) k (id_lock this) (timeout this)) w q \<and>
             client_setAsync env (client this) k (id_lock this) (timeout this) (world q)
               = (Rejects (StoreError m), w))) \<and>
   (\<forall>r p'. \<not> locked this \<and> attemptLock env this k (retries this) p = Some (r, p') \<and> r \<noteq> Fulfilled \<longrightarrow>
      acquire env this k p = Some (r, this, p') \<and> acquiredLocks p' = acquiredLocks p)"
proof (intro conjI allI impI)
  fix e w1 n
  assume err: "client_setAsync env (client this) k (id_lock this) (timeout this) (world p) = (Rejects e, w1)"
  show a: "attemptLock env this k n p =
        Some (Rejected e, record_call (SetAsync (client this) k (id_lock this) (timeout this)) w1 p)" for n
    by (subst attemptLock.simps) (simp add: err)
  show "trace (record_call (SetAsync (client this) k (id_lock this) (timeout this)) w1 p) =
        trace p @ [SetAsync (client this) k (id_lock this) (timeout this)]"
    by (simp add: record_call_def)
  show "acquiredLocks (record_call (SetAsync (client this) k (id_lock this) (timeout this)) w1 p) =
        acquiredLocks p"
    by (simp add: record_call_def)
  assume "\<not> locked this"
  then show "acquire env this k p =
           Some (Rejected e, this, record_call (SetAsync (client this) k (id_lock this) (timeout this)) w1 p)"
    by (simp add: acquire_def a)
next
  fix n m p'
  assume "attemptLock env this k n p = Some (Rejected (StoreError m), p')"
  from attemptLock_rejected_last[OF this]
  show "\<exists>q w. p' = record_call (SetAsync (client this) k (id_lock this) (timeout this)) w q \<and>
             client_setAsync env (client this) k (id_lock this) (timeout this) (world q)
               = (Rejects (StoreError m), w)"
    by simp
next
  fix r p'
  assume h: "\<not> locked this \<and> attemptLock env this k (retries this) p = Some (r, p') \<and> r \<noteq> Fulfilled"
  with acquire_failure_frame[of this env k p r p']
  show "acquire env this k p = Some (r, this, p')" and "acquiredLocks p' = acquiredLocks p"
    by simp_all
qed

theorem transport_error_aborts_witness:
  "client_setAsync down_env (client retry_lock) ''res1'' (id_lock retry_lock) (timeout retry_lock)
      (world fresh_process) = (Rejects (StoreError ''ECONNREFUSED''), empty_redis) \<and>
   \<not> locked retry_lock \<and> retries retry_lock = 2 \<and>
   acquire down_env retry_lock ''res1'' fresh_process =
     Some (Rejected (StoreError ''ECONNREFUSED''), retry_lock,
           fresh_process\<lparr>trace := [SetAsync 0 ''res1'' ''uuid-'' 10000]\<rparr>)"
proof -
  have h1: "client_setAsync down_env (client retry_lock) ''res1'' (id_lock retry_lock) (timeout retry_lock)
      (world fresh_process) = (Rejects (StoreError ''ECONNREFUSED''), empty_redis)"
    by (simp add: down_env_def fresh_process_def)
  have h2: "\<not> locked retry_lock" "retries retry_lock = 2"
    by (simp_all add: retry_lock_def idle_lock_def)
  from transport_error_aborts [of down_env retry_lock "''res1''" fresh_process] h1 h2(1)
  have "acquire down_env retry_lock ''res1'' fresh_process =
     Some (Rejected (StoreError ''ECONNREFUSED''), retry_lock,
           record_call (SetAsync (client retry_lock) ''res1'' (id_lock retry_lock) (timeout retry_lock))
             empty_redis fresh_process)"
    by blast
  then show ?thesis
    using h1 h2
    by (simp add: record_call_def retry_lock_def idle_lock_def fresh_process_def)
qed

text \<open>
  The same on a later attempt: the first write is refused, the connection is lost during
  the delay, and the second write is the last one although a retry is left.
\<close>

lemma connection_lost_on_second_attempt:
  "(case acquire flaky_env retry_lock ''res1'' fresh_process of
      None \<Rightarrow> False
    | Some (r, l, p) \<Rightarrow>
        r = Rejected (StoreError ''ECONNRESET'') \<and> l = retry_lock \<and>
        trace p = [SetAsync 0 ''res1'' ''uuid-'' 10000, Delay 100, SetAsync 0 ''res1'' ''uuid-'' 10000] \<and>
        acquiredLocks p = {})"
  by code_simp



section \<open>Construction and the registries\<close>











section \<open>Mutual exclusion\<close>



























end
